theory Spec2Isabelle
  imports Main "HOL-Library.Word"
begin

section \<open>JavaScript values and string primitives\<close>

text \<open>
  The two front ends of the repository (\<^verbatim>\<open>static/main.js\<close> and the second, unnamed
  script) each define \<^verbatim>\<open>sendMessage\<close>, which reads the response body chunk by chunk,
  splits every chunk into lines and hands the lines that start with \<^verbatim>\<open>data: \<close> to
  \<^verbatim>\<open>JSON.parse\<close>. A string is a list of code units; \<^typ>\<open>char\<close> covers the code units
  below 256. What the reader delivers is an array of bytes; \<^verbatim>\<open>decoder.decode(value)\<close>
  turns every read into text on its own, since it is called without the
  \<^verbatim>\<open>stream\<close> option. The decoder belongs to the runtime and is a parameter, \<open>D\<close>,
  of the functions that take a read; a chunk is the text a read was decoded to.
\<close>

type_synonym bytes = "8 word list"

type_synonym text_decode = "bytes \<Rightarrow> string"


text \<open>
  A value as \<^verbatim>\<open>JSON.parse\<close> returns it, with \<^verbatim>\<open>undefined\<close> for the property that is
  not there. A number is kept as its decimal rendering (what \<^verbatim>\<open>String(n)\<close> gives): the
  handlers only concatenate a number to a string or test whether it is zero. The pairs of
  an object are its own properties, looked up from the front.
\<close>

datatype js =
    JUndefined
  | JNull
  | JBool bool
  | JNum string
  | JStr string
  | JArr "js list"
  | JObj "(string \<times> js) list"

text \<open>\<^verbatim>\<open>s.startsWith(p)\<close>, \<^verbatim>\<open>s.slice(n)\<close> for \<open>0 \<le> n\<close>, and \<^verbatim>\<open>s.includes(p)\<close>.\<close>

definition startsWith :: "string \<Rightarrow> string \<Rightarrow> bool" where
  "startsWith s p = (take (length p) s = p)"

definition slice :: "nat \<Rightarrow> string \<Rightarrow> string" where
  "slice n s = drop n s"

fun includes_str :: "string \<Rightarrow> string \<Rightarrow> bool" where
  "includes_str [] p = (p = [])"
| "includes_str (c # cs) p = (startsWith (c # cs) p \<or> includes_str cs p)"

text \<open>
  \<^verbatim>\<open>s.indexOf(p)\<close>: the first position at which \<open>p\<close> occurs, \<open>None\<close> for \<open>-1\<close>.
\<close>

fun indexOf :: "string \<Rightarrow> string \<Rightarrow> nat option" where
  "indexOf [] p = (if p = [] then Some 0 else None)"
| "indexOf (c # cs) p =
     (if startsWith (c # cs) p then Some 0 else map_option Suc (indexOf cs p))"

text \<open>
  \<^verbatim>\<open>chunk.split('\n')\<close>: the pieces between line feeds; a text with \<open>n\<close> line feeds
  gives \<open>n + 1\<close> pieces, the last one empty when the text ends with a line feed.
\<close>

definition newline :: char where
  "newline = CHR 0x0A"

primrec split_nl :: "string \<Rightarrow> string list" where
  "split_nl [] = [[]]"
| "split_nl (c # cs) =
     (if c = newline then [] # split_nl cs
      else (case split_nl cs of [] \<Rightarrow> [[c]] | l # ls \<Rightarrow> (c # l) # ls))"

text \<open>\<^verbatim>\<open>lines.join('\n')\<close>, the inverse of the split.\<close>

fun join_nl :: "string list \<Rightarrow> string" where
  "join_nl [] = []"
| "join_nl [l] = l"
| "join_nl (l # ls) = l @ newline # join_nl ls"

text \<open>
  \<^verbatim>\<open>s.trim()\<close>: white space and line terminators removed at both ends. Of the code
  units below 256 these are tab, line feed, vertical tab, form feed, carriage return,
  space and the no-break space.
\<close>

definition is_space :: "char \<Rightarrow> bool" where
  "is_space c = (c \<in> set [CHR 0x09, CHR 0x0A, CHR 0x0B, CHR 0x0C, CHR 0x0D, CHR 0x20, CHR 0xA0])"

definition trim :: "string \<Rightarrow> string" where
  "trim s = rev (dropWhile is_space (rev (dropWhile is_space s)))"

text \<open>
  Reading a property of \<open>data\<close>. On \<^verbatim>\<open>null\<close> and \<^verbatim>\<open>undefined\<close> the read throws a
  TypeError (\<open>None\<close>). The names the handlers read (\<^verbatim>\<open>type\<close>, \<^verbatim>\<open>content\<close>,
  \<^verbatim>\<open>response\<close>) are on no prototype, so only an object's own property can give a
  value other than \<^verbatim>\<open>undefined\<close>.
\<close>

fun get_prop :: "js \<Rightarrow> string \<Rightarrow> js option" where
  "get_prop JUndefined k = None"
| "get_prop JNull k = None"
| "get_prop (JObj ps) k = Some (case map_of ps k of None \<Rightarrow> JUndefined | Some v \<Rightarrow> v)"
| "get_prop v k = Some JUndefined"

text \<open>
  The call \<^verbatim>\<open>v.includes(p)\<close> with a string \<open>p\<close>: the substring test on a string, the
  membership test on an array, and a TypeError (\<open>None\<close>) on every other value, which
  has no callable \<^verbatim>\<open>includes\<close>.
\<close>

fun call_includes :: "js \<Rightarrow> string \<Rightarrow> bool option" where
  "call_includes (JStr s) p = Some (includes_str s p)"
| "call_includes (JArr xs) p = Some (List.member xs (JStr p))"
| "call_includes v p = None"

text \<open>The truth value of \<^verbatim>\<open>if (v)\<close>.\<close>

fun truthy :: "js \<Rightarrow> bool" where
  "truthy JUndefined = False"
| "truthy JNull = False"
| "truthy (JBool b) = b"
| "truthy (JNum r) = (r \<noteq> ''0'')"
| "truthy (JStr s) = (s \<noteq> [])"
| "truthy (JArr xs) = True"
| "truthy (JObj ps) = True"

text \<open>
  The string that \<^verbatim>\<open>str += v\<close> appends. An array is joined with commas, \<^verbatim>\<open>null\<close>
  elements giving the empty string; an object gives \<^verbatim>\<open>[object Object]\<close>, or a
  TypeError (\<open>None\<close>) when an own property \<^verbatim>\<open>toString\<close> hides the inherited method.
\<close>

fun to_string :: "js \<Rightarrow> string option"
  and join_comma :: "js list \<Rightarrow> string option" where
  "to_string JUndefined = Some ''undefined''"
| "to_string JNull = Some ''null''"
| "to_string (JBool b) = Some (if b then ''true'' else ''false'')"
| "to_string (JNum r) = Some r"
| "to_string (JStr s) = Some s"
| "to_string (JArr xs) = join_comma xs"
| "to_string (JObj ps) =
     (if map_of ps ''toString'' = None then Some ''[object Object]'' else None)"
| "join_comma [] = Some []"
| "join_comma (x # xs) =
     (case (if x = JNull \<or> x = JUndefined then Some [] else to_string x) of
        None \<Rightarrow> None
      | Some s \<Rightarrow>
          (if xs = [] then Some s
           else (case join_comma xs of None \<Rightarrow> None | Some r \<Rightarrow> Some (s @ '','' @ r))))"

text \<open>
  \<^verbatim>\<open>marked.parse(src)\<close> renders Markdown to HTML. The rendering is kept symbolic: the
  result stands for the HTML of the source text. The library refuses an argument that
  is not a string with an exception (\<open>None\<close>).
\<close>

fun marked_parse :: "js \<Rightarrow> string option" where
  "marked_parse (JStr s) = Some s"
| "marked_parse v = None"

text \<open>
  \<^verbatim>\<open>JSON.parse\<close> belongs to the runtime, not to the repository: the functions below take
  it as the parameter \<open>P\<close>, \<open>None\<close> standing for the SyntaxError it throws.
\<close>

type_synonym json_parse = "string \<Rightarrow> js option"

text \<open>
  The outcome of a \<^verbatim>\<open>try\<close> block: it ran to its end, or it threw, in either case
  with the state as the statements before that point left it.
\<close>

datatype 's outcome = Completed 's | Threw 's

section \<open>The streaming loop of the second front end (chain and final events)\<close>

text \<open>What an element of the page shows.\<close>

datatype node =
    TextNode string
  | Markdown string
  | RoleSpan string
  | ContentDiv string

text \<open>
  \<open>TextNode s\<close> is literal text; \<open>Markdown s\<close> the HTML \<^verbatim>\<open>marked.parse(s)\<close>;
  \<open>RoleSpan s\<close> the \<^verbatim>\<open>span.reasoning-role\<close> with text \<open>s\<close>; \<open>ContentDiv s\<close> a
  \<^verbatim>\<open>div\<close> whose content is \<^verbatim>\<open>marked.parse(s)\<close>.

  One call of \<^verbatim>\<open>sendMessage\<close> owns the assistant message element with its children
  (the chain container, the reasoning toggles inserted before the final container, the
  final container and the indicator), the timer of the indicator, and the local
  variables of the call. \<open>console\<close> collects the messages of \<^verbatim>\<open>console.error\<close>.
  Scrolling is not modelled.
\<close>

record exchange =
  chainContainer :: "node list"
  chainDisplay :: string
  finalContainer :: "node list"
  finalDisplay :: string
  reasoningToggles :: "string list"
  indicatorSpan :: bool
  loadingInterval :: bool
  currentChain :: string
  finalAnswer :: js
  criticResponses :: "js list"
  responderResponses :: "js list"
  console :: "string list"

text \<open>The state when the request is sent (lines 328 to 361 of the script).\<close>

definition fresh_exchange :: exchange where
  "fresh_exchange =
     \<lparr>chainContainer = [], chainDisplay = [], finalContainer = [], finalDisplay = ''none'',
      reasoningToggles = [], indicatorSpan = True, loadingInterval = True,
      currentChain = [], finalAnswer = JStr [], criticResponses = [],
      responderResponses = [], console = []\<rparr>"

text \<open>
  The branch \<^verbatim>\<open>data.type === 'chain'\<close>, \<open>content\<close> being \<^verbatim>\<open>data.content\<close>: the
  container is cleared, the content is stored under the role whose marker it includes
  (the critic's marker is tested first), the rendered content is appended and the role
  label is inserted before it.
\<close>

definition on_chain :: "js \<Rightarrow> exchange \<Rightarrow> exchange outcome" where
  "on_chain content st =
     (let s1 = st\<lparr>chainContainer := []\<rparr> in
      case call_includes content ''Critic:'' of
        None \<Rightarrow> Threw s1
      | Some isCritic \<Rightarrow>
          (case (if isCritic
                 then Some (s1\<lparr>criticResponses := criticResponses s1 @ [content]\<rparr>)
                 else (case call_includes content ''Responder:'' of
                         None \<Rightarrow> None
                       | Some isResponder \<Rightarrow>
                           Some (if isResponder
                                 then s1\<lparr>responderResponses := responderResponses s1 @ [content]\<rparr>
                                 else s1))) of
             None \<Rightarrow> Threw s1
           | Some s2 \<Rightarrow>
               (case marked_parse content of
                  None \<Rightarrow> Threw s2
                | Some src \<Rightarrow>
                    (let s3 = s2\<lparr>chainContainer := chainContainer s2 @ [ContentDiv src]\<rparr> in
                     case call_includes content ''Critic:'' of
                       None \<Rightarrow> Threw s3
                     | Some c \<Rightarrow>
                         Completed (s3\<lparr>chainContainer :=
                           RoleSpan (if c then ''Critic'' else ''Responder'') # chainContainer s3\<rparr>)))))"

text \<open>
  The branch \<^verbatim>\<open>data.type === 'final'\<close>: the chain container is hidden, the final
  container shown and filled, and one more toggle button is inserted before it.
\<close>

definition on_final :: "js \<Rightarrow> exchange \<Rightarrow> exchange outcome" where
  "on_final content st =
     (let s1 = st\<lparr>chainDisplay := ''none'', finalDisplay := ''block'', finalAnswer := content\<rparr> in
      case marked_parse content of
        None \<Rightarrow> Threw s1
      | Some src \<Rightarrow>
          Completed (s1\<lparr>finalContainer := [Markdown src],
                         reasoningToggles := reasoningToggles s1 @ [''Show reasoning'']\<rparr>))"

text \<open>The statements of the \<^verbatim>\<open>try\<close> block after \<^verbatim>\<open>JSON.parse\<close> (lines 385 to 433).\<close>

definition handle_data :: "js \<Rightarrow> exchange \<Rightarrow> exchange outcome" where
  "handle_data data st =
     (case get_prop data ''type'' of
        None \<Rightarrow> Threw st
      | Some t \<Rightarrow>
          (case get_prop data ''content'' of
             None \<Rightarrow> Threw st
           | Some content \<Rightarrow>
               if t = JStr ''chain'' then on_chain content st
               else if t = JStr ''final'' then on_final content st
               else Completed st))"

text \<open>
  The inner \<^verbatim>\<open>try\<close> and \<^verbatim>\<open>catch\<close> (lines 382 to 436): whatever the block throws is
  logged, and the loop goes on.
\<close>

definition try_line :: "json_parse \<Rightarrow> string \<Rightarrow> exchange \<Rightarrow> exchange outcome" where
  "try_line P line st =
     (case P (slice 6 line) of None \<Rightarrow> Threw st | Some data \<Rightarrow> handle_data data st)"

definition caught :: "exchange outcome \<Rightarrow> exchange" where
  "caught r =
     (case r of
        Completed s \<Rightarrow> s
      | Threw s \<Rightarrow> s\<lparr>console := console s @ [''Error parsing chunk:'']\<rparr>)"

text \<open>The body of the \<^verbatim>\<open>for\<close> loop over the lines of a chunk (lines 381 to 437).\<close>

definition process_line :: "json_parse \<Rightarrow> string \<Rightarrow> exchange \<Rightarrow> exchange" where
  "process_line P line st =
     (if startsWith line ''data: '' then caught (try_line P line st) else st)"

text \<open>
  One turn of the \<^verbatim>\<open>while\<close> loop from \<^verbatim>\<open>chunk\<close> on (lines 378 to 438): the text
  of the read is split and its lines processed.
\<close>

definition process_chunk :: "json_parse \<Rightarrow> string \<Rightarrow> exchange \<Rightarrow> exchange" where
  "process_chunk P chunk st = fold (process_line P) (split_nl chunk) st"

text \<open>
  The whole turn (lines 374 to 438): the value read is decoded by itself, with nothing
  kept of the reads before it, and the text is processed.
\<close>

definition read_chunk :: "text_decode \<Rightarrow> json_parse \<Rightarrow> bytes \<Rightarrow> exchange \<Rightarrow> exchange" where
  "read_chunk D P value st = process_chunk P (D value) st"

text \<open>
  How the transport ends after the chunks it delivered: the reader reports
  \<^verbatim>\<open>done\<close>, or the request or a read fails (before any chunk when the request itself
  fails or the status is not a success).
\<close>

datatype ending = StreamDone | TransportError

text \<open>The \<^verbatim>\<open>catch\<close> and \<^verbatim>\<open>finally\<close> blocks of the call (lines 443 to 450).\<close>

definition on_error :: "exchange \<Rightarrow> exchange" where
  "on_error st =
     st\<lparr>console := console st @ [''Error in message handling:''],
        chainContainer := [TextNode ''Error: Failed to send message'']\<rparr>"

definition cleanup :: "exchange \<Rightarrow> exchange" where
  "cleanup st = st\<lparr>loadingInterval := False, indicatorSpan := False\<rparr>"

text \<open>
  The call from the request to its end, on the texts of the reads. The line that
  \<^verbatim>\<open>API.request\<close> itself writes to the console when the request fails is not
  modelled.
\<close>

definition stream :: "json_parse \<Rightarrow> string list \<Rightarrow> ending \<Rightarrow> exchange \<Rightarrow> exchange" where
  "stream P chunks e st =
     (let s = fold (process_chunk P) chunks st in
      case e of StreamDone \<Rightarrow> cleanup s | TransportError \<Rightarrow> cleanup (on_error s))"

text \<open>
  A payload that parsed, handled inside the \<^verbatim>\<open>try\<close>: what a decoded event does to
  the state. \<open>trace\<close> lists the states an exchange goes through, event by event.
\<close>

definition decoded :: "js \<Rightarrow> exchange \<Rightarrow> exchange" where
  "decoded data st = caught (handle_data data st)"

fun trace :: "js list \<Rightarrow> exchange \<Rightarrow> exchange list" where
  "trace [] st = [st]"
| "trace (d # ds) st = st # trace ds (decoded d st)"

section \<open>The streaming loop of main.js (token events)\<close>

text \<open>
  One call of \<^verbatim>\<open>sendMessage\<close> in \<^verbatim>\<open>static/main.js\<close> owns the assistant message
  element, here what it shows, and the variable \<^verbatim>\<open>fullMessage\<close>.
\<close>

record token_exchange =
  assistantMessageEl :: node
  fullMessage :: string
  consoleErrors :: "string list"

definition fresh_token_exchange :: token_exchange where
  "fresh_token_exchange =
     \<lparr>assistantMessageEl = TextNode ''Assistant is typing...'', fullMessage = [],
      consoleErrors = []\<rparr>"

text \<open>The statements of the \<^verbatim>\<open>try\<close> block after \<^verbatim>\<open>JSON.parse\<close> (lines 342 to 355).\<close>

definition handle_token :: "js \<Rightarrow> token_exchange \<Rightarrow> token_exchange outcome" where
  "handle_token data st =
     (case get_prop data ''response'' of
        None \<Rightarrow> Threw st
      | Some r \<Rightarrow>
          if truthy r
          then (case to_string r of
                  None \<Rightarrow> Threw st
                | Some fragment \<Rightarrow>
                    (let s1 = st\<lparr>fullMessage := fullMessage st @ fragment\<rparr> in
                     Completed (s1\<lparr>assistantMessageEl := Markdown (fullMessage s1)\<rparr>)))
          else Completed st)"

definition try_token_line :: "json_parse \<Rightarrow> string \<Rightarrow> token_exchange \<Rightarrow> token_exchange outcome" where
  "try_token_line P line st =
     (case P (slice 6 line) of None \<Rightarrow> Threw st | Some data \<Rightarrow> handle_token data st)"

definition token_caught :: "token_exchange outcome \<Rightarrow> token_exchange" where
  "token_caught r =
     (case r of
        Completed s \<Rightarrow> s
      | Threw s \<Rightarrow> s\<lparr>consoleErrors := consoleErrors s @ [''JSON parse error:'']\<rparr>)"

definition process_token_line :: "json_parse \<Rightarrow> string \<Rightarrow> token_exchange \<Rightarrow> token_exchange" where
  "process_token_line P line st =
     (if startsWith line ''data: '' then token_caught (try_token_line P line st) else st)"

definition process_token_chunk :: "json_parse \<Rightarrow> string \<Rightarrow> token_exchange \<Rightarrow> token_exchange" where
  "process_token_chunk P chunk st = fold (process_token_line P) (split_nl chunk) st"

text \<open>The whole turn of the loop (lines 332 to 360): the value read is decoded by itself.\<close>

definition read_token_chunk ::
  "text_decode \<Rightarrow> json_parse \<Rightarrow> bytes \<Rightarrow> token_exchange \<Rightarrow> token_exchange" where
  "read_token_chunk D P value st = process_token_chunk P (D value) st"

definition token_decoded :: "js \<Rightarrow> token_exchange \<Rightarrow> token_exchange" where
  "token_decoded data st = token_caught (handle_token data st)"

text \<open>The outer \<^verbatim>\<open>catch\<close> (lines 363 to 366) and the whole call.\<close>

definition on_token_error :: "token_exchange \<Rightarrow> token_exchange" where
  "on_token_error st =
     st\<lparr>consoleErrors := consoleErrors st @ [''Error in message streaming:''],
        assistantMessageEl := TextNode ''Error: Failed to send message''\<rparr>"

definition token_stream ::
  "json_parse \<Rightarrow> string list \<Rightarrow> ending \<Rightarrow> token_exchange \<Rightarrow> token_exchange" where
  "token_stream P chunks e st =
     (let s = fold (process_token_chunk P) chunks st in
      case e of StreamDone \<Rightarrow> s | TransportError \<Rightarrow> on_token_error s)"

section \<open>The phase an exchange shows\<close>

text \<open>
  The script keeps no phase variable. The phase of the specification is read off what
  the assistant message shows: the indicator is removed when the call ends, the final
  container is displayed from the first final event on, and the chain container has
  children once a chain event was rendered.
\<close>

datatype phase = Idle | StreamingChain | StreamingFinal | Done | Failed

definition phase_of :: "exchange \<Rightarrow> phase" where
  "phase_of st =
     (if \<not> indicatorSpan st
      then (if chainContainer st = [TextNode ''Error: Failed to send message''] then Failed else Done)
      else if finalDisplay st = ''block'' then StreamingFinal
      else if chainContainer st \<noteq> [] then StreamingChain
      else Idle)"

fun rank :: "phase \<Rightarrow> nat" where
  "rank Idle = 0"
| "rank StreamingChain = 1"
| "rank StreamingFinal = 2"
| "rank Done = 3"
| "rank Failed = 3"

text \<open>
  A decoded event of the wire protocol: a payload whose \<^verbatim>\<open>type\<close> is \<^verbatim>\<open>chain\<close> or
  \<^verbatim>\<open>final\<close> carries a string \<^verbatim>\<open>content\<close>; a payload of any other type is ignored by
  the script.
\<close>

fun is_string :: "js \<Rightarrow> bool" where
  "is_string (JStr s) = True"
| "is_string v = False"

definition valid_event :: "js \<Rightarrow> bool" where
  "valid_event data =
     (case get_prop data ''type'' of
        None \<Rightarrow> False
      | Some t \<Rightarrow>
          if t = JStr ''chain'' \<or> t = JStr ''final''
          then (case get_prop data ''content'' of None \<Rightarrow> False | Some c \<Rightarrow> is_string c)
          else True)"

section \<open>The page: the start of a call and calls in flight\<close>

text \<open>
  The part of the page \<^verbatim>\<open>sendMessage\<close> reads and writes before the first chunk: the
  input field, the selected model, the global chat id and last message, the children
  of the message list and the requests sent. Every call of \<^verbatim>\<open>sendMessage\<close> keeps its
  own element and variables; \<open>calls\<close> holds them in the order of the calls, and an
  assistant message in the list names its call. The type \<open>'x\<close> is \<^typ>\<open>exchange\<close> for
  the second front end and \<^typ>\<open>token_exchange\<close> for \<^verbatim>\<open>static/main.js\<close>.
\<close>

datatype request = CreateChat string | ChatMessage string string "nat option"

datatype item = UserMessage string | AssistantMessage nat

record 'x page =
  messageInput :: string
  modelSelect :: string
  currentChatId :: "nat option"
  lastUserMessage :: string
  chatMessages :: "item list"
  calls :: "'x list"
  requests :: "request list"

text \<open>\<^verbatim>\<open>!id\<close> for a chat id that is \<^verbatim>\<open>null\<close> or a number.\<close>

fun no_id :: "nat option \<Rightarrow> bool" where
  "no_id None = True"
| "no_id (Some n) = (n = 0)"

text \<open>
  \<^verbatim>\<open>createNewChat\<close>, with the server's answer as a parameter: \<open>None\<close> when the request
  fails, otherwise the new chat's id. A chat created, the id is stored and the message
  list cleared. The result is the value returned with the page. The refresh of the chat
  list, the address bar and the console are not modelled.
\<close>

definition createNewChat :: "nat option \<Rightarrow> 'x page \<Rightarrow> nat option \<times> 'x page" where
  "createNewChat answer pg =
     (let p1 = pg\<lparr>requests := requests pg @ [CreateChat (modelSelect pg)]\<rparr> in
      case answer of
        None \<Rightarrow> (None, p1)
      | Some chat_id \<Rightarrow> (Some chat_id, p1\<lparr>currentChatId := Some chat_id, chatMessages := []\<rparr>))"

text \<open>
  The element and request a call creates once the chat is known: the assistant message
  is appended to the list and the chat request is sent.
\<close>

definition open_call :: "'x \<Rightarrow> string \<Rightarrow> 'x page \<Rightarrow> 'x page" where
  "open_call x message pg =
     pg\<lparr>chatMessages := chatMessages pg @ [AssistantMessage (length (calls pg))],
        calls := calls pg @ [x],
        requests := requests pg @ [ChatMessage message (modelSelect pg) (currentChatId pg)]\<rparr>"

text \<open>
  \<^verbatim>\<open>sendMessage\<close> of the second front end up to the request (lines 312 to 368): the
  user's bubble is created before the chat is. The steps are taken in one piece; the
  script suspends at \<^verbatim>\<open>await createNewChat()\<close> and at the request, where another
  call can start.
\<close>

definition sendMessage :: "nat option \<Rightarrow> exchange page \<Rightarrow> exchange page" where
  "sendMessage answer pg =
     (let message = trim (messageInput pg) in
      if message = [] then pg
      else
        (let p1 = pg\<lparr>lastUserMessage := message,
                      chatMessages := chatMessages pg @ [UserMessage message],
                      messageInput := []\<rparr> in
         if no_id (currentChatId p1)
         then (case createNewChat answer p1 of
                 (newChatId, p2) \<Rightarrow>
                   if no_id newChatId then p2 else open_call fresh_exchange message p2)
         else open_call fresh_exchange message p1))"

text \<open>
  \<^verbatim>\<open>sendMessage\<close> of \<^verbatim>\<open>static/main.js\<close> up to the request (lines 285 to 321): the
  chat is created before the user's bubble is. The steps are taken in one piece here
  too.
\<close>

definition sendMessage_main :: "nat option \<Rightarrow> token_exchange page \<Rightarrow> token_exchange page" where
  "sendMessage_main answer pg =
     (let message = trim (messageInput pg) in
      if message = [] then pg
      else
        (let p1 = pg\<lparr>lastUserMessage := message\<rparr>;
             bubble = (\<lambda>p. open_call fresh_token_exchange message
                        (p\<lparr>chatMessages := chatMessages p @ [UserMessage message],
                           messageInput := []\<rparr>)) in
         if no_id (currentChatId p1)
         then (case createNewChat answer p1 of
                 (newChatId, p2) \<Rightarrow> if no_id newChatId then p2 else bubble p2)
         else bubble p1))"

text \<open>
  A call in flight waits at \<^verbatim>\<open>await reader.read()\<close> and is resumed when its reader
  delivers a chunk; calls interleave at these points only. Nothing in either script
  tells a call that a later one has started: the step acts on the call's own state,
  whichever call it is.
\<close>

definition deliver :: "json_parse \<Rightarrow> nat \<Rightarrow> string \<Rightarrow> exchange page \<Rightarrow> exchange page" where
  "deliver P i chunk pg =
     (if i < length (calls pg)
      then pg\<lparr>calls := (calls pg)[i := process_chunk P chunk (calls pg ! i)]\<rparr>
      else pg)"

definition deliver_main ::
  "json_parse \<Rightarrow> nat \<Rightarrow> string \<Rightarrow> token_exchange page \<Rightarrow> token_exchange page" where
  "deliver_main P i chunk pg =
     (if i < length (calls pg)
      then pg\<lparr>calls := (calls pg)[i := process_token_chunk P chunk (calls pg ! i)]\<rparr>
      else pg)"

section \<open>Splitting and joining lines\<close>

lemma split_nl_not_Nil: "split_nl s \<noteq> []"
  by (induction s) (auto split: list.splits)

lemma join_split_nl: "join_nl (split_nl s) = s"
proof (induction s)
  case Nil
  show ?case by simp
next
  case (Cons c cs)
  obtain l ls where sp: "split_nl cs = l # ls"
    using split_nl_not_Nil [of cs] by (cases "split_nl cs") auto
  show ?case
  proof (cases "c = newline")
    case True
    with Cons sp show ?thesis by simp
  next
    case False
    with Cons sp show ?thesis by (cases ls) auto
  qed
qed

lemma fold_concat_map: "fold f (concat (map g xs)) s = fold (\<lambda>x. fold f (g x)) xs s"
  by (induction xs arbitrary: s) auto

section \<open>C1: reads, chunks and lines\<close>

text \<open>
  Claim C1, as the code has it. Both scripts decode every read on its own and split the
  text of every read on its own: no pending bytes or fragment are carried from one
  read to the next and nothing is flushed at the end of the stream. Joining the pieces
  of a read with line feeds gives back the text that read was decoded to, whatever the
  decoder; and the lines the frame decoder sees are the pieces of the first read, then
  those of the second, and so on, in both scripts. Nothing is said of the text of the
  byte stream as a whole.
\<close>

theorem reads_decoded_and_split_one_by_one:
  "concat (map (\<lambda>value. join_nl (split_nl (D value))) reads) = concat (map D reads)
   \<and> fold (read_chunk D P) reads st =
       fold (process_line P) (concat (map (\<lambda>value. split_nl (D value)) reads)) st
   \<and> fold (read_token_chunk D P) reads ts =
       fold (process_token_line P) (concat (map (\<lambda>value. split_nl (D value)) reads)) ts"
proof -
  have a: "concat (map (\<lambda>value. join_nl (split_nl (D value))) reads) = concat (map D reads)"
    by (simp add: join_split_nl)
  have b: "read_chunk D P = (\<lambda>value. fold (process_line P) (split_nl (D value)))"
    by (rule ext)+ (simp add: read_chunk_def process_chunk_def)
  have c: "read_token_chunk D P = (\<lambda>value. fold (process_token_line P) (split_nl (D value)))"
    by (rule ext)+ (simp add: read_token_chunk_def process_token_chunk_def)
  show ?thesis
    using a by (simp add: fold_concat_map b c)
qed

text \<open>
  Claim C1 as stated fails when a frame is cut by the end of a read. The final frame of
  the specification's scenario is plain ASCII, so each read decodes to the characters
  of its bytes. Delivered in two reads, the frame reaches the frame decoder as the two
  halves and an empty piece, not as the one line a single read gives; with the
  terminators restored between these pieces the text is not the stream's; and the final
  answer, which the single read sets to \<^verbatim>\<open>Done.\<close>, is never set. The parser here
  accepts the complete payload and nothing else.
\<close>

theorem split_frame_counterexample:
  \<open>concat (map split_nl [''data: {"typ'', ''e":"final","content":"Done."}'' @ [newline]])
     = [''data: {"typ'', ''e":"final","content":"Done."}'', []]
   \<and> split_nl (''data: {"typ'' @ ''e":"final","content":"Done."}'' @ [newline])
     = [''data: {"type":"final","content":"Done."}'', []]
   \<and> join_nl (concat (map split_nl [''data: {"typ'', ''e":"final","content":"Done."}'' @ [newline]]))
     \<noteq> ''data: {"typ'' @ ''e":"final","content":"Done."}'' @ [newline]
   \<and> finalAnswer (fold (process_chunk
         [''{"type":"final","content":"Done."}'' \<mapsto>
            JObj [(''type'', JStr ''final''), (''content'', JStr ''Done.'')]])
         [''data: {"typ'', ''e":"final","content":"Done."}'' @ [newline]] fresh_exchange) = JStr []
   \<and> finalAnswer (fold (process_chunk
         [''{"type":"final","content":"Done."}'' \<mapsto>
            JObj [(''type'', JStr ''final''), (''content'', JStr ''Done.'')]])
         [''data: {"typ'' @ ''e":"final","content":"Done."}'' @ [newline]] fresh_exchange)
     = JStr ''Done.''\<close>
  by (simp add: newline_def process_chunk_def process_line_def startsWith_def slice_def
      try_line_def caught_def handle_data_def on_final_def fresh_exchange_def)

section \<open>C2: a payload that does not parse\<close>

lemma process_line_decoded:
  "startsWith line ''data: '' \<Longrightarrow> P (slice 6 line) = Some data \<Longrightarrow>
   process_line P line st = decoded data st"
  by (simp add: process_line_def try_line_def decoded_def)

lemma process_token_line_decoded:
  "startsWith line ''data: '' \<Longrightarrow> P (slice 6 line) = Some data \<Longrightarrow>
   process_token_line P line ts = token_decoded data ts"
  by (simp add: process_token_line_def try_token_line_def token_decoded_def)

text \<open>
  Claim C2. A line that starts with \<^verbatim>\<open>data: \<close> and whose payload \<^verbatim>\<open>JSON.parse\<close>
  rejects: the exception is caught inside the loop body, the only effect is the message
  on the console, the phase shown is the same, and the loop goes on with the next line.
  This holds in both scripts.
\<close>

theorem malformed_frame_is_skipped:
  assumes "startsWith line ''data: ''" and "P (slice 6 line) = None"
  shows "try_line P line st = Threw st
       \<and> process_line P line st = st\<lparr>console := console st @ [''Error parsing chunk:'']\<rparr>
       \<and> phase_of (process_line P line st) = phase_of st
       \<and> fold (process_line P) (line # rest) st =
           fold (process_line P) rest (st\<lparr>console := console st @ [''Error parsing chunk:'']\<rparr>)
       \<and> try_token_line P line ts = Threw ts
       \<and> process_token_line P line ts =
           ts\<lparr>consoleErrors := consoleErrors ts @ [''JSON parse error:'']\<rparr>
       \<and> fold (process_token_line P) (line # rest) ts =
           fold (process_token_line P) rest
             (ts\<lparr>consoleErrors := consoleErrors ts @ [''JSON parse error:'']\<rparr>)"
proof -
  have t: "try_line P line st = Threw st"
    using assms by (simp add: try_line_def)
  have l: "process_line P line st = st\<lparr>console := console st @ [''Error parsing chunk:'']\<rparr>"
    using assms t by (simp add: process_line_def caught_def)
  have tt: "try_token_line P line ts = Threw ts"
    using assms by (simp add: try_token_line_def)
  have tl: "process_token_line P line ts =
      ts\<lparr>consoleErrors := consoleErrors ts @ [''JSON parse error:'']\<rparr>"
    using assms tt by (simp add: process_token_line_def token_caught_def)
  show ?thesis
    by (simp add: t l tt tl phase_of_def)
qed

text \<open>
  The first half of a frame cut by a chunk boundary is such a line, for a parser that
  accepts the complete payload only.
\<close>

theorem malformed_frame_is_skipped_witness:
  \<open>startsWith ''data: {"typ'' ''data: ''
   \<and> [''{"type":"final","content":"Done."}'' \<mapsto>
        JObj [(''type'', JStr ''final''), (''content'', JStr ''Done.'')]]
       (slice 6 ''data: {"typ'') = None
   \<and> process_line
        [''{"type":"final","content":"Done."}'' \<mapsto>
          JObj [(''type'', JStr ''final''), (''content'', JStr ''Done.'')]]
        ''data: {"typ'' fresh_exchange
       = fresh_exchange\<lparr>console := [''Error parsing chunk:'']\<rparr>
   \<and> process_token_line
        [''{"type":"final","content":"Done."}'' \<mapsto>
          JObj [(''type'', JStr ''final''), (''content'', JStr ''Done.'')]]
        ''data: {"typ'' fresh_token_exchange
       = fresh_token_exchange\<lparr>consoleErrors := [''JSON parse error:'']\<rparr>\<close>
proof -
  let ?P = \<open>[''{"type":"final","content":"Done."}'' \<mapsto>
        JObj [(''type'', JStr ''final''), (''content'', JStr ''Done.'')]]\<close>
  have a: \<open>startsWith ''data: {"typ'' ''data: ''\<close>
    by (simp add: startsWith_def)
  have b: \<open>?P (slice 6 ''data: {"typ'') = None\<close>
    by (simp add: slice_def)
  show ?thesis
    using a b malformed_frame_is_skipped [where line = \<open>''data: {"typ''\<close> and P = ?P
        and st = fresh_exchange and rest = "[]" and ts = fresh_token_exchange, OF a b]
    by (simp add: fresh_exchange_def fresh_token_exchange_def)
qed

section \<open>C3: the two payload shapes\<close>

lemma get_prop_other: "get_prop d k = Some v \<Longrightarrow> \<exists>w. get_prop d k' = Some w"
  by (cases d) auto

text \<open>
  Claim C3, as the code has it. No script decodes both shapes. \<^verbatim>\<open>static/main.js\<close>
  appends the \<^verbatim>\<open>response\<close> of a token payload to \<^verbatim>\<open>fullMessage\<close> and does nothing
  with a payload whose \<^verbatim>\<open>response\<close> is missing or falsy, typed payloads included.
  The second front end dispatches a payload of type \<^verbatim>\<open>chain\<close> or \<^verbatim>\<open>final\<close> to the
  branch of that type and does nothing with a payload of any other type, token
  payloads included.
\<close>

theorem each_script_decodes_one_shape:
  assumes "get_prop tok ''type'' = Some t" and "t \<noteq> JStr ''chain''" and "t \<noteq> JStr ''final''"
    and "get_prop tok ''response'' = Some (JStr r)"
    and "get_prop typed ''response'' = Some v" and "\<not> truthy v"
    and "get_prop typed ''type'' = Some (JStr k)" and "k = ''chain'' \<or> k = ''final''"
    and "get_prop typed ''content'' = Some c"
  shows "fullMessage (token_decoded tok ts) = fullMessage ts @ r
       \<and> decoded tok st = st
       \<and> token_decoded typed ts = ts
       \<and> handle_data typed st = (if k = ''chain'' then on_chain c st else on_final c st)"
proof -
  have a: "fullMessage (token_decoded tok ts) = fullMessage ts @ r"
    using assms(4) by (simp add: token_decoded_def handle_token_def token_caught_def Let_def)
  have b: "decoded tok st = st"
    using assms(1-3) get_prop_other [OF assms(1), of "''content''"]
    by (auto simp: decoded_def handle_data_def caught_def)
  have c: "token_decoded typed ts = ts"
    using assms(5,6) by (simp add: token_decoded_def handle_token_def token_caught_def)
  have d: "handle_data typed st = (if k = ''chain'' then on_chain c st else on_final c st)"
    using assms(7-9) by (auto simp: handle_data_def)
  show ?thesis
    by (simp only: a b c d simp_thms)
qed

theorem each_script_decodes_one_shape_witness:
  "get_prop (JObj [(''response'', JStr ''Hi'')]) ''type'' = Some JUndefined
   \<and> JUndefined \<noteq> JStr ''chain'' \<and> JUndefined \<noteq> JStr ''final''
   \<and> get_prop (JObj [(''response'', JStr ''Hi'')]) ''response'' = Some (JStr ''Hi'')
   \<and> get_prop (JObj [(''type'', JStr ''final''), (''content'', JStr ''Done.'')]) ''response''
       = Some JUndefined
   \<and> \<not> truthy JUndefined
   \<and> get_prop (JObj [(''type'', JStr ''final''), (''content'', JStr ''Done.'')]) ''type''
       = Some (JStr ''final'')
   \<and> get_prop (JObj [(''type'', JStr ''final''), (''content'', JStr ''Done.'')]) ''content''
       = Some (JStr ''Done.'')
   \<and> fullMessage (token_decoded (JObj [(''response'', JStr ''Hi'')]) fresh_token_exchange) = ''Hi''
   \<and> decoded (JObj [(''response'', JStr ''Hi'')]) fresh_exchange = fresh_exchange
   \<and> token_decoded (JObj [(''type'', JStr ''final''), (''content'', JStr ''Done.'')])
       fresh_token_exchange = fresh_token_exchange
   \<and> handle_data (JObj [(''type'', JStr ''final''), (''content'', JStr ''Done.'')]) fresh_exchange
       = on_final (JStr ''Done.'') fresh_exchange"
  using each_script_decodes_one_shape
    [of "JObj [(''response'', JStr ''Hi'')]" JUndefined "''Hi''"
        "JObj [(''type'', JStr ''final''), (''content'', JStr ''Done.'')]" JUndefined
        "''final''" "JStr ''Done.''" fresh_token_exchange fresh_exchange]
  by (simp add: fresh_token_exchange_def)

text \<open>
  Claim C3 as stated fails in each script on the other shape: the second front end leaves
  the exchange as it was on a token frame, and \<^verbatim>\<open>static/main.js\<close> leaves it as it was
  on a final frame.
\<close>

theorem one_pipeline_counterexample:
  \<open>process_line [''{"response":"Hi"}'' \<mapsto> JObj [(''response'', JStr ''Hi'')]]
     ''data: {"response":"Hi"}'' fresh_exchange = fresh_exchange
   \<and> process_token_line
       [''{"type":"final","content":"Done."}'' \<mapsto>
          JObj [(''type'', JStr ''final''), (''content'', JStr ''Done.'')]]
       ''data: {"type":"final","content":"Done."}'' fresh_token_exchange
     = fresh_token_exchange\<close>
  by (simp add: process_line_def process_token_line_def try_line_def try_token_line_def
      handle_data_def handle_token_def caught_def token_caught_def startsWith_def slice_def)

section \<open>C4: the role of a chain event\<close>

lemma on_chain_string:
  "on_chain (JStr c) st =
     Completed (st\<lparr>chainContainer :=
                     [RoleSpan (if includes_str c ''Critic:'' then ''Critic'' else ''Responder''),
                      ContentDiv c],
                   criticResponses :=
                     (if includes_str c ''Critic:'' then criticResponses st @ [JStr c]
                      else criticResponses st),
                   responderResponses :=
                     (if \<not> includes_str c ''Critic:'' \<and> includes_str c ''Responder:''
                      then responderResponses st @ [JStr c] else responderResponses st)\<rparr>)"
  by (simp add: on_chain_def Let_def)

text \<open>
  Claim C4, as the code has it. The critic's marker is tested first, wherever it stands:
  a content that includes \<^verbatim>\<open>Critic:\<close> is stored and labelled as the critic's; one that
  includes \<^verbatim>\<open>Responder:\<close> and not \<^verbatim>\<open>Critic:\<close> is stored and labelled as the
  responder's; one that includes neither is stored under neither role and carries the
  label \<^verbatim>\<open>Responder\<close>. The content is stored and rendered whole. A marker is included
  exactly when it has a position in the content.
\<close>

theorem critic_marker_tested_first:
  "on_chain (JStr c) st =
     Completed (st\<lparr>chainContainer :=
                     [RoleSpan (if includes_str c ''Critic:'' then ''Critic'' else ''Responder''),
                      ContentDiv c],
                   criticResponses :=
                     (if includes_str c ''Critic:'' then criticResponses st @ [JStr c]
                      else criticResponses st),
                   responderResponses :=
                     (if \<not> includes_str c ''Critic:'' \<and> includes_str c ''Responder:''
                      then responderResponses st @ [JStr c] else responderResponses st)\<rparr>)
   \<and> includes_str c p = (indexOf c p \<noteq> None)"
proof -
  have "includes_str c p = (indexOf c p \<noteq> None)"
    by (induction c) auto
  then show ?thesis
    by (simp add: on_chain_string)
qed

text \<open>
  Claim C4 as stated fails on a content with both markers in which the responder's comes
  first: it is the critic's. It fails too on a content with no marker: the label shown is
  \<^verbatim>\<open>Responder\<close>, not an unknown role.
\<close>

theorem earliest_marker_counterexample:
  "indexOf ''Responder: fine. Critic: no'' ''Responder:'' = Some 0
   \<and> indexOf ''Responder: fine. Critic: no'' ''Critic:'' = Some 17
   \<and> on_chain (JStr ''Responder: fine. Critic: no'') fresh_exchange =
       Completed (fresh_exchange
         \<lparr>chainContainer := [RoleSpan ''Critic'', ContentDiv ''Responder: fine. Critic: no''],
          criticResponses := [JStr ''Responder: fine. Critic: no'']\<rparr>)
   \<and> indexOf ''Looks good'' ''Critic:'' = None
   \<and> indexOf ''Looks good'' ''Responder:'' = None
   \<and> chainContainer (decoded (JObj [(''type'', JStr ''chain''), (''content'', JStr ''Looks good'')])
         fresh_exchange) = [RoleSpan ''Responder'', ContentDiv ''Looks good'']"
  by (simp add: on_chain_def decoded_def handle_data_def caught_def startsWith_def
      fresh_exchange_def)

section \<open>C5: what the chain panel shows\<close>

text \<open>
  Claim C5, as the code has it. A chain event clears the chain container and fills it
  with the role label and the rendering of its own content: after any events, the panel
  shows the last chain event alone. What accumulates are the two lists of the call,
  which get the content under the role whose marker it includes; they are never
  rendered.
\<close>

theorem chain_panel_shows_latest_event:
  assumes "get_prop data ''type'' = Some (JStr ''chain'')"
    and "get_prop data ''content'' = Some (JStr c)"
  shows "chainContainer (fold decoded (ds @ [data]) st) =
           [RoleSpan (if includes_str c ''Critic:'' then ''Critic'' else ''Responder''),
            ContentDiv c]
       \<and> criticResponses (decoded data st) =
           (if includes_str c ''Critic:'' then criticResponses st @ [JStr c]
            else criticResponses st)
       \<and> responderResponses (decoded data st) =
           (if \<not> includes_str c ''Critic:'' \<and> includes_str c ''Responder:''
            then responderResponses st @ [JStr c] else responderResponses st)"
proof -
  have "decoded data s = caught (on_chain (JStr c) s)" for s
    using assms by (simp add: decoded_def handle_data_def)
  then show ?thesis
    by (simp add: on_chain_string caught_def)
qed

theorem chain_panel_shows_latest_event_witness:
  "get_prop (JObj [(''type'', JStr ''chain''), (''content'', JStr ''Responder: ok'')]) ''type''
     = Some (JStr ''chain'')
   \<and> get_prop (JObj [(''type'', JStr ''chain''), (''content'', JStr ''Responder: ok'')]) ''content''
     = Some (JStr ''Responder: ok'')
   \<and> chainContainer
       (fold decoded
         ([JObj [(''type'', JStr ''chain''), (''content'', JStr ''Critic: too vague'')]] @
          [JObj [(''type'', JStr ''chain''), (''content'', JStr ''Responder: ok'')]])
         fresh_exchange)
     = [RoleSpan ''Responder'', ContentDiv ''Responder: ok'']"
  using chain_panel_shows_latest_event
    [of "JObj [(''type'', JStr ''chain''), (''content'', JStr ''Responder: ok'')]" "''Responder: ok''"
        "[JObj [(''type'', JStr ''chain''), (''content'', JStr ''Critic: too vague'')]]"
        fresh_exchange]
  by (simp add: startsWith_def)

text \<open>
  Claim C5 as stated fails after two chain events: the panel holds the second segment
  only, while the first is kept in the critic's list.
\<close>

theorem cumulative_panel_counterexample:
  "chainContainer
     (fold decoded
       [JObj [(''type'', JStr ''chain''), (''content'', JStr ''Critic: too vague'')],
        JObj [(''type'', JStr ''chain''), (''content'', JStr ''Responder: ok'')]]
       fresh_exchange)
     = [RoleSpan ''Responder'', ContentDiv ''Responder: ok'']
   \<and> criticResponses
     (fold decoded
       [JObj [(''type'', JStr ''chain''), (''content'', JStr ''Critic: too vague'')],
        JObj [(''type'', JStr ''chain''), (''content'', JStr ''Responder: ok'')]]
       fresh_exchange) = [JStr ''Critic: too vague'']"
  by (simp add: on_chain_def decoded_def handle_data_def caught_def startsWith_def
      fresh_exchange_def)

section \<open>C6: a transport error\<close>

text \<open>
  Claim C6, as the code has it. On a transport error \<^verbatim>\<open>static/main.js\<close> sets the text
  of the assistant message to the error message, whatever was accumulated; the variable
  \<^verbatim>\<open>fullMessage\<close> keeps its value and is shown no more. The second front end replaces
  the content of the chain container by the error message and leaves the final
  container, the final answer, the two lists and both display styles as they were; the
  indicator and its timer are removed, as on every way out. Nothing depends on whether
  content was accumulated, and no marker is appended to it.
\<close>

theorem error_message_overwrites:
  "chainContainer (stream P chunks TransportError st) = [TextNode ''Error: Failed to send message'']
   \<and> finalContainer (stream P chunks TransportError st) =
       finalContainer (fold (process_chunk P) chunks st)
   \<and> finalDisplay (stream P chunks TransportError st) =
       finalDisplay (fold (process_chunk P) chunks st)
   \<and> chainDisplay (stream P chunks TransportError st) =
       chainDisplay (fold (process_chunk P) chunks st)
   \<and> finalAnswer (stream P chunks TransportError st) =
       finalAnswer (fold (process_chunk P) chunks st)
   \<and> criticResponses (stream P chunks TransportError st) =
       criticResponses (fold (process_chunk P) chunks st)
   \<and> responderResponses (stream P chunks TransportError st) =
       responderResponses (fold (process_chunk P) chunks st)
   \<and> indicatorSpan (stream P chunks e st) = False
   \<and> loadingInterval (stream P chunks e st) = False
   \<and> assistantMessageEl (token_stream P chunks TransportError ts) =
       TextNode ''Error: Failed to send message''
   \<and> fullMessage (token_stream P chunks TransportError ts) =
       fullMessage (fold (process_token_chunk P) chunks ts)"
  by (cases e) (simp_all add: stream_def token_stream_def on_error_def cleanup_def
      on_token_error_def Let_def)

text \<open>
  Claim C6 as stated fails in \<^verbatim>\<open>static/main.js\<close> once a token has arrived: the stream
  that ends normally shows \<^verbatim>\<open>Hello\<close>, the one that fails after the same chunk shows
  the error message alone. In the second front end the chain segment shown is replaced
  in the same way.
\<close>

theorem partial_output_counterexample:
  \<open>token_stream
     [''{"response":"Hello"}'' \<mapsto> JObj [(''response'', JStr ''Hello'')]]
     [''data: {"response":"Hello"}'' @ [newline]] StreamDone fresh_token_exchange
     = \<lparr>assistantMessageEl = Markdown ''Hello'', fullMessage = ''Hello'', consoleErrors = []\<rparr>
   \<and> token_stream
     [''{"response":"Hello"}'' \<mapsto> JObj [(''response'', JStr ''Hello'')]]
     [''data: {"response":"Hello"}'' @ [newline]] TransportError fresh_token_exchange
     = \<lparr>assistantMessageEl = TextNode ''Error: Failed to send message'', fullMessage = ''Hello'',
        consoleErrors = [''Error in message streaming:'']\<rparr>
   \<and> chainContainer (stream
     [''{"type":"chain","content":"Critic: too vague"}'' \<mapsto>
        JObj [(''type'', JStr ''chain''), (''content'', JStr ''Critic: too vague'')]]
     [''data: {"type":"chain","content":"Critic: too vague"}'' @ [newline]] TransportError
     fresh_exchange) = [TextNode ''Error: Failed to send message'']\<close>
  by (simp add: token_stream_def stream_def process_token_chunk_def process_chunk_def
      process_token_line_def process_line_def try_token_line_def try_line_def
      handle_token_def handle_data_def on_chain_def token_caught_def caught_def
      on_token_error_def on_error_def cleanup_def startsWith_def slice_def newline_def
      fresh_token_exchange_def fresh_exchange_def)

section \<open>C7: token events\<close>

lemma token_step:
  assumes "get_prop d ''response'' = Some (JStr r)"
  shows "token_decoded d ts =
           (if r = [] then ts
            else ts\<lparr>fullMessage := fullMessage ts @ r,
                    assistantMessageEl := Markdown (fullMessage ts @ r)\<rparr>)"
  using assms by (simp add: token_decoded_def handle_token_def token_caught_def Let_def)

lemma token_fold:
  assumes "list_all2 (\<lambda>d r. get_prop d ''response'' = Some (JStr r)) ds rs"
  shows "fullMessage (fold token_decoded ds ts) = fullMessage ts @ concat rs
       \<and> assistantMessageEl (fold token_decoded ds ts) =
           (if concat rs = [] then assistantMessageEl ts
            else Markdown (fullMessage ts @ concat rs))"
  using assms
proof (induction ds rs arbitrary: ts rule: list_all2_induct)
  case Nil
  show ?case by simp
next
  case (Cons d r ds rs)
  show ?case
    by (simp add: Cons.IH token_step [OF Cons.hyps(1)])
qed

text \<open>
  Claim C7. In \<^verbatim>\<open>static/main.js\<close> a run of token events, each a payload whose
  \<^verbatim>\<open>response\<close> is a string, appends the fragments to \<^verbatim>\<open>fullMessage\<close> in the order of
  arrival. The only thing shown is the assistant message: the typing text until the
  first fragment that is not empty, the rendering of the whole \<^verbatim>\<open>fullMessage\<close> from
  then on. The exchange of this script has no chain panel to enter.
\<close>

theorem token_fragments_accumulate:
  assumes "list_all2 (\<lambda>d r. get_prop d ''response'' = Some (JStr r)) ds rs"
  shows "fullMessage (fold token_decoded ds ts) = fullMessage ts @ concat rs
       \<and> assistantMessageEl (fold token_decoded ds fresh_token_exchange) =
           (if concat rs = [] then TextNode ''Assistant is typing...''
            else Markdown (concat rs))"
  using token_fold [OF assms, of ts] token_fold [OF assms, of fresh_token_exchange]
  by (simp add: fresh_token_exchange_def)

theorem token_fragments_accumulate_witness:
  "list_all2 (\<lambda>d r. get_prop d ''response'' = Some (JStr r))
     [JObj [(''response'', JStr ''Hel'')], JObj [(''response'', JStr ''lo'')]] [''Hel'', ''lo'']
   \<and> fullMessage (fold token_decoded
        [JObj [(''response'', JStr ''Hel'')], JObj [(''response'', JStr ''lo'')]]
        fresh_token_exchange) = ''Hello''
   \<and> assistantMessageEl (fold token_decoded
        [JObj [(''response'', JStr ''Hel'')], JObj [(''response'', JStr ''lo'')]]
        fresh_token_exchange) = Markdown ''Hello''"
proof -
  have h: "list_all2 (\<lambda>d r. get_prop d ''response'' = Some (JStr r))
     [JObj [(''response'', JStr ''Hel'')], JObj [(''response'', JStr ''lo'')]] [''Hel'', ''lo'']"
    by simp
  show ?thesis
    using h token_fragments_accumulate [OF h, of fresh_token_exchange]
    by (simp add: fresh_token_exchange_def)
qed

section \<open>C8: the phase only moves forward\<close>

lemma on_chain_frame:
  "indicatorSpan (caught (on_chain c st)) = indicatorSpan st
   \<and> finalDisplay (caught (on_chain c st)) = finalDisplay st
   \<and> chainDisplay (caught (on_chain c st)) = chainDisplay st
   \<and> (\<forall>e. TextNode e \<notin> set (chainContainer (caught (on_chain c st))))"
  by (auto simp: on_chain_def caught_def Let_def split: option.splits)

lemma on_final_frame:
  "indicatorSpan (caught (on_final c st)) = indicatorSpan st
   \<and> finalDisplay (caught (on_final c st)) = ''block''
   \<and> chainDisplay (caught (on_final c st)) = ''none''
   \<and> chainContainer (caught (on_final c st)) = chainContainer st"
  by (auto simp: on_final_def caught_def Let_def split: option.splits)

lemma decoded_cases:
  "decoded d st = st\<lparr>console := console st @ [''Error parsing chunk:'']\<rparr>
   \<or> decoded d st = st
   \<or> (\<exists>c. get_prop d ''type'' = Some (JStr ''chain'') \<and> get_prop d ''content'' = Some c
        \<and> decoded d st = caught (on_chain c st))
   \<or> (\<exists>c. get_prop d ''type'' = Some (JStr ''final'') \<and> get_prop d ''content'' = Some c
        \<and> decoded d st = caught (on_final c st))"
  by (auto simp: decoded_def handle_data_def caught_def split: option.splits)

lemma decoded_indicator: "indicatorSpan (decoded d st) = indicatorSpan st"
  using decoded_cases [of d st] on_chain_frame on_final_frame by auto

lemma decoded_final_display:
  "finalDisplay st = ''block'' \<Longrightarrow> finalDisplay (decoded d st) = ''block''"
  using decoded_cases [of d st] on_chain_frame on_final_frame by auto

lemma decoded_no_text:
  "\<forall>e. TextNode e \<notin> set (chainContainer st) \<Longrightarrow> TextNode e \<notin> set (chainContainer (decoded d st))"
  using decoded_cases [of d st] on_chain_frame [of _ st] on_final_frame [of _ st] by auto

lemma decoded_rank:
  assumes "valid_event d" and "indicatorSpan st"
  shows "rank (phase_of st) \<le> rank (phase_of (decoded d st))"
proof -
  consider (chain) c where "get_prop d ''type'' = Some (JStr ''chain'')"
      "get_prop d ''content'' = Some (JStr c)"
    | (final) c where "get_prop d ''type'' = Some (JStr ''final'')"
      "get_prop d ''content'' = Some (JStr c)"
    | (other) t where "get_prop d ''type'' = Some t" "t \<noteq> JStr ''chain''" "t \<noteq> JStr ''final''"
    using assms(1)
    by (auto simp: valid_event_def split: option.splits if_splits elim: is_string.elims)
  then show ?thesis
  proof cases
    case chain
    then have "decoded d st = caught (on_chain (JStr c) st)"
      by (simp add: decoded_def handle_data_def)
    then show ?thesis
      using assms(2) by (simp add: on_chain_string caught_def phase_of_def)
  next
    case final
    then have "decoded d st = caught (on_final (JStr c) st)"
      by (simp add: decoded_def handle_data_def)
    then show ?thesis
      using assms(2) by (simp add: on_final_def caught_def phase_of_def)
  next
    case other
    then have "decoded d st = st"
      using get_prop_other [OF other(1), of "''content''"]
      by (auto simp: decoded_def handle_data_def caught_def)
    then show ?thesis by simp
  qed
qed

lemma trace_sorted:
  assumes "\<forall>d \<in> set ds. valid_event d" and "indicatorSpan st"
  shows "sorted (map (\<lambda>s. rank (phase_of s)) (trace ds st))
       \<and> (\<forall>s \<in> set (trace ds st). rank (phase_of st) \<le> rank (phase_of s))"
  using assms
proof (induction ds arbitrary: st)
  case Nil
  show ?case by simp
next
  case (Cons d ds)
  have v: "valid_event d" using Cons.prems(1) by simp
  have live: "indicatorSpan (decoded d st)"
    using Cons.prems(2) by (simp add: decoded_indicator)
  have step: "rank (phase_of st) \<le> rank (phase_of (decoded d st))"
    using decoded_rank [OF v Cons.prems(2)] .
  have ih: "sorted (map (\<lambda>s. rank (phase_of s)) (trace ds (decoded d st)))
       \<and> (\<forall>s \<in> set (trace ds (decoded d st)).
            rank (phase_of (decoded d st)) \<le> rank (phase_of s))"
    using Cons.IH [OF _ live] Cons.prems(1) by simp
  show ?case
    using ih step by (auto intro: order_trans)
qed

lemma trace_not_Nil: "trace ds st \<noteq> []"
  by (cases ds) auto

lemma last_trace: "last (trace ds st) = fold decoded ds st"
  by (induction ds arbitrary: st) (auto simp: trace_not_Nil)

lemma fold_decoded_no_text:
  "\<forall>e. TextNode e \<notin> set (chainContainer st) \<Longrightarrow>
   \<forall>e. TextNode e \<notin> set (chainContainer (fold decoded ds st))"
  by (induction ds arbitrary: st) (auto simp: decoded_no_text)

text \<open>
  Claim C8. Take the events of a stream, every chain and final event with a string
  content, and the states a fresh exchange goes through. The phases shown, ranked
  idle, streaming chain, streaming final, done, never go down; the exchange starts
  idle and the normal end of the stream makes it done. Once the final container is
  displayed, no event of any kind brings the exchange back to an earlier phase: a later
  chain event fills the hidden chain container and leaves the displays alone.
\<close>

theorem phase_never_regresses:
  assumes "list_all valid_event ds"
  shows "sorted (map (\<lambda>s. rank (phase_of s)) (trace ds fresh_exchange))
       \<and> phase_of fresh_exchange = Idle
       \<and> phase_of (cleanup (last (trace ds fresh_exchange))) = Done
       \<and> (phase_of st = StreamingFinal \<longrightarrow>
            phase_of (decoded d st) = StreamingFinal
            \<and> finalDisplay (decoded d st) = ''block'')"
proof -
  have live: "indicatorSpan fresh_exchange"
    by (simp add: fresh_exchange_def)
  have valid: "\<forall>d \<in> set ds. valid_event d"
    using assms by (simp add: list_all_iff)
  have a: "sorted (map (\<lambda>s. rank (phase_of s)) (trace ds fresh_exchange))"
    using trace_sorted [OF valid live] by simp
  have b: "phase_of fresh_exchange = Idle"
    by (simp add: phase_of_def fresh_exchange_def)
  have "\<forall>e. TextNode e \<notin> set (chainContainer fresh_exchange)"
    by (simp add: fresh_exchange_def)
  then have "chainContainer (fold decoded ds fresh_exchange)
      \<noteq> [TextNode ''Error: Failed to send message'']"
    using fold_decoded_no_text [of fresh_exchange ds] by (metis list.set_intros(1))
  then have c: "phase_of (cleanup (last (trace ds fresh_exchange))) = Done"
    by (simp add: last_trace phase_of_def cleanup_def)
  have d: "phase_of st = StreamingFinal \<longrightarrow>
      phase_of (decoded d st) = StreamingFinal \<and> finalDisplay (decoded d st) = ''block''"
    using decoded_indicator [of d st] decoded_final_display [of st d]
    by (auto simp: phase_of_def split: if_splits)
  show ?thesis
    using a b c d by blast
qed

text \<open>
  A chain event, the final event and a late chain event: the ranks are 0, 1, 2 and 2, and
  the late chain event, applied to the state the first two leave, keeps the final phase.
\<close>

theorem phase_never_regresses_witness:
  "list_all valid_event
     [JObj [(''type'', JStr ''chain''), (''content'', JStr ''Critic: too vague'')],
      JObj [(''type'', JStr ''final''), (''content'', JStr ''Done.'')],
      JObj [(''type'', JStr ''chain''), (''content'', JStr ''Responder: late'')]]
   \<and> map (\<lambda>s. rank (phase_of s))
       (trace
         [JObj [(''type'', JStr ''chain''), (''content'', JStr ''Critic: too vague'')],
          JObj [(''type'', JStr ''final''), (''content'', JStr ''Done.'')],
          JObj [(''type'', JStr ''chain''), (''content'', JStr ''Responder: late'')]]
         fresh_exchange) = [0, 1, 2, 2]
   \<and> sorted [0, 1, 2, 2 :: nat]
   \<and> phase_of
       (fold decoded
         [JObj [(''type'', JStr ''chain''), (''content'', JStr ''Critic: too vague'')],
          JObj [(''type'', JStr ''final''), (''content'', JStr ''Done.'')]]
         fresh_exchange) = StreamingFinal
   \<and> phase_of
       (decoded (JObj [(''type'', JStr ''chain''), (''content'', JStr ''Responder: late'')])
         (fold decoded
           [JObj [(''type'', JStr ''chain''), (''content'', JStr ''Critic: too vague'')],
            JObj [(''type'', JStr ''final''), (''content'', JStr ''Done.'')]]
           fresh_exchange)) = StreamingFinal"
proof -
  let ?ds = "[JObj [(''type'', JStr ''chain''), (''content'', JStr ''Critic: too vague'')],
      JObj [(''type'', JStr ''final''), (''content'', JStr ''Done.'')],
      JObj [(''type'', JStr ''chain''), (''content'', JStr ''Responder: late'')]]"
  let ?st = "fold decoded
         [JObj [(''type'', JStr ''chain''), (''content'', JStr ''Critic: too vague'')],
          JObj [(''type'', JStr ''final''), (''content'', JStr ''Done.'')]]
         fresh_exchange"
  have h: "list_all valid_event ?ds"
    by (simp add: valid_event_def)
  have ranks: "map (\<lambda>s. rank (phase_of s)) (trace ?ds fresh_exchange) = [0, 1, 2, 2]"
    by (simp add: decoded_def handle_data_def on_chain_def on_final_def caught_def
        startsWith_def phase_of_def fresh_exchange_def)
  have fin: "phase_of ?st = StreamingFinal"
    by (simp add: decoded_def handle_data_def on_chain_def on_final_def caught_def
        startsWith_def phase_of_def fresh_exchange_def)
  show ?thesis
    using h ranks fin
      phase_never_regresses [OF h, of ?st
        "JObj [(''type'', JStr ''chain''), (''content'', JStr ''Responder: late'')]"]
    by simp
qed

section \<open>C9: a call started while another is in flight\<close>

lemma sendMessage_calls:
  "calls (sendMessage answer pg) = calls pg
   \<or> calls (sendMessage answer pg) = calls pg @ [fresh_exchange]"
  by (auto simp: sendMessage_def createNewChat_def open_call_def Let_def split: option.splits)

lemma sendMessage_main_calls:
  "calls (sendMessage_main answer pm) = calls pm
   \<or> calls (sendMessage_main answer pm) = calls pm @ [fresh_token_exchange]"
  by (auto simp: sendMessage_main_def createNewChat_def open_call_def Let_def split: option.splits)

text \<open>
  Claim C9, as the code has it. Neither script cancels anything. A new call of
  \<^verbatim>\<open>sendMessage\<close> leaves the state of every earlier call as it is, indicator and
  timer included; a chunk that reaches an earlier call afterwards is processed in full,
  on that call's own element and variables; and a chunk changes no call but the one it is
  delivered to.
\<close>

theorem earlier_call_keeps_running:
  assumes "i < length (calls pg)" and "k < length (calls pm)"
  shows "calls (sendMessage answer pg) ! i = calls pg ! i
       \<and> calls (deliver P i chunk (sendMessage answer pg)) ! i = process_chunk P chunk (calls pg ! i)
       \<and> (j < length (calls pg) \<and> j \<noteq> i \<longrightarrow> calls (deliver P i chunk pg) ! j = calls pg ! j)
       \<and> calls (sendMessage_main answer pm) ! k = calls pm ! k
       \<and> calls (deliver_main P k chunk (sendMessage_main answer pm)) ! k =
           process_token_chunk P chunk (calls pm ! k)
       \<and> (j < length (calls pm) \<and> j \<noteq> k \<longrightarrow>
            calls (deliver_main P k chunk pm) ! j = calls pm ! j)"
proof -
  have a: "calls (sendMessage answer pg) ! i = calls pg ! i"
    and a': "i < length (calls (sendMessage answer pg))"
    using assms(1) sendMessage_calls [of answer pg] by (auto simp: nth_append)
  have b: "calls (sendMessage_main answer pm) ! k = calls pm ! k"
    and b': "k < length (calls (sendMessage_main answer pm))"
    using assms(2) sendMessage_main_calls [of answer pm] by (auto simp: nth_append)
  show ?thesis
    using a a' b b' assms by (simp add: deliver_def deliver_main_def)
qed

text \<open>
  Two calls in flight in each script when a third message is sent; a token chunk then
  reaches the first call of \<^verbatim>\<open>static/main.js\<close>, and a chunk for the first call of the
  second front end leaves the second call alone.
\<close>

theorem earlier_call_keeps_running_witness:
  \<open>(0::nat) < length (calls
       \<lparr>messageInput = ''third'', modelSelect = ''llama3'', currentChatId = Some 1,
        lastUserMessage = ''second'', chatMessages = [AssistantMessage 0, AssistantMessage 1],
        calls = [fresh_exchange, fresh_exchange], requests = []\<rparr>)
   \<and> (0::nat) < length (calls
       \<lparr>messageInput = ''third'', modelSelect = ''llama3'', currentChatId = Some 1,
        lastUserMessage = ''second'', chatMessages = [AssistantMessage 0, AssistantMessage 1],
        calls = [fresh_token_exchange, fresh_token_exchange], requests = []\<rparr>)
   \<and> (1::nat) < length (calls
       \<lparr>messageInput = ''third'', modelSelect = ''llama3'', currentChatId = Some 1,
        lastUserMessage = ''second'', chatMessages = [AssistantMessage 0, AssistantMessage 1],
        calls = [fresh_exchange, fresh_exchange], requests = []\<rparr>)
   \<and> (1::nat) < length (calls
       \<lparr>messageInput = ''third'', modelSelect = ''llama3'', currentChatId = Some 1,
        lastUserMessage = ''second'', chatMessages = [AssistantMessage 0, AssistantMessage 1],
        calls = [fresh_token_exchange, fresh_token_exchange], requests = []\<rparr>)
   \<and> (1::nat) \<noteq> 0
   \<and> calls (sendMessage None
       \<lparr>messageInput = ''third'', modelSelect = ''llama3'', currentChatId = Some 1,
        lastUserMessage = ''second'', chatMessages = [AssistantMessage 0, AssistantMessage 1],
        calls = [fresh_exchange, fresh_exchange], requests = []\<rparr>) ! 0
     = fresh_exchange
   \<and> calls (deliver [''{"response":"Hi"}'' \<mapsto> JObj [(''response'', JStr ''Hi'')]] 0
       (''data: {"response":"Hi"}'' @ [newline])
       \<lparr>messageInput = ''third'', modelSelect = ''llama3'', currentChatId = Some 1,
        lastUserMessage = ''second'', chatMessages = [AssistantMessage 0, AssistantMessage 1],
        calls = [fresh_exchange, fresh_exchange], requests = []\<rparr>) ! 1
     = fresh_exchange
   \<and> calls (deliver_main [''{"response":"Hi"}'' \<mapsto> JObj [(''response'', JStr ''Hi'')]] 0
       (''data: {"response":"Hi"}'' @ [newline])
       (sendMessage_main None
         \<lparr>messageInput = ''third'', modelSelect = ''llama3'', currentChatId = Some 1,
          lastUserMessage = ''second'', chatMessages = [AssistantMessage 0, AssistantMessage 1],
          calls = [fresh_token_exchange, fresh_token_exchange], requests = []\<rparr>)) ! 0
     = \<lparr>assistantMessageEl = Markdown ''Hi'', fullMessage = ''Hi'', consoleErrors = []\<rparr>\<close>
proof -
  let ?pg = "\<lparr>messageInput = ''third'', modelSelect = ''llama3'', currentChatId = Some 1,
        lastUserMessage = ''second'', chatMessages = [AssistantMessage 0, AssistantMessage 1],
        calls = [fresh_exchange, fresh_exchange], requests = []\<rparr>"
  let ?pm = "\<lparr>messageInput = ''third'', modelSelect = ''llama3'', currentChatId = Some 1,
        lastUserMessage = ''second'', chatMessages = [AssistantMessage 0, AssistantMessage 1],
        calls = [fresh_token_exchange, fresh_token_exchange], requests = []\<rparr>"
  let ?P = \<open>[''{"response":"Hi"}'' \<mapsto> JObj [(''response'', JStr ''Hi'')]]\<close>
  have a: "0 < length (calls ?pg)" by simp
  have b: "0 < length (calls ?pm)" by simp
  have c: \<open>process_token_chunk ?P (''data: {"response":"Hi"}'' @ [newline]) fresh_token_exchange
      = \<lparr>assistantMessageEl = Markdown ''Hi'', fullMessage = ''Hi'', consoleErrors = []\<rparr>\<close>
    by (simp add: process_token_chunk_def process_token_line_def try_token_line_def
        handle_token_def token_caught_def startsWith_def slice_def newline_def
        fresh_token_exchange_def)
  show ?thesis
    using a b c
      earlier_call_keeps_running [OF a b, where answer = None and P = ?P
        and chunk = \<open>''data: {"response":"Hi"}'' @ [newline]\<close> and j = 1]
    by simp
qed

text \<open>
  Claim C9 as stated fails when a second message is sent while the first call reads its
  stream: both calls are in flight, the first with its indicator attached and its timer
  running, and a chain frame that reaches the first call afterwards is rendered in its
  chain container.
\<close>

theorem supersession_counterexample:
  \<open>calls (sendMessage None
      ((sendMessage None
         \<lparr>messageInput = ''first'', modelSelect = ''llama3'', currentChatId = Some 1,
          lastUserMessage = [], chatMessages = [], calls = [], requests = []\<rparr>)
       \<lparr>messageInput := ''second''\<rparr>))
     = [fresh_exchange, fresh_exchange]
   \<and> indicatorSpan fresh_exchange \<and> loadingInterval fresh_exchange
   \<and> chainContainer (calls
       (deliver
         [''{"type":"chain","content":"Critic: too vague"}'' \<mapsto>
            JObj [(''type'', JStr ''chain''), (''content'', JStr ''Critic: too vague'')]]
         0 (''data: {"type":"chain","content":"Critic: too vague"}'' @ [newline])
         (sendMessage None
           ((sendMessage None
              \<lparr>messageInput = ''first'', modelSelect = ''llama3'', currentChatId = Some 1,
               lastUserMessage = [], chatMessages = [], calls = [], requests = []\<rparr>)
            \<lparr>messageInput := ''second''\<rparr>))) ! 0)
     = [RoleSpan ''Critic'', ContentDiv ''Critic: too vague'']\<close>
  by (simp add: sendMessage_def open_call_def trim_def is_space_def deliver_def
      process_chunk_def process_line_def try_line_def handle_data_def on_chain_def caught_def
      startsWith_def slice_def newline_def fresh_exchange_def Let_def)

section \<open>C10: an empty message\<close>

text \<open>
  Claim C10. When the input field holds nothing but white space, \<^verbatim>\<open>sendMessage\<close>
  returns at once in both scripts: the page is what it was, so no request was sent, no
  message element created, and the chat id, the last message and the messages shown are
  unchanged.
\<close>

theorem empty_input_is_no_op:
  assumes "trim (messageInput pg) = []" and "trim (messageInput pm) = []"
  shows "sendMessage answer pg = pg \<and> sendMessage_main answer' pm = pm"
  using assms by (simp add: sendMessage_def sendMessage_main_def)

theorem empty_input_is_no_op_witness:
  "trim (messageInput
     \<lparr>messageInput = ''  '' @ [newline], modelSelect = ''llama3'', currentChatId = None,
      lastUserMessage = ''hello'', chatMessages = [UserMessage ''hello'', AssistantMessage 0],
      calls = [fresh_exchange], requests = [ChatMessage ''hello'' ''llama3'' (Some 1)]\<rparr>) = []
   \<and> sendMessage (Some 2)
     \<lparr>messageInput = ''  '' @ [newline], modelSelect = ''llama3'', currentChatId = None,
      lastUserMessage = ''hello'', chatMessages = [UserMessage ''hello'', AssistantMessage 0],
      calls = [fresh_exchange], requests = [ChatMessage ''hello'' ''llama3'' (Some 1)]\<rparr>
     = \<lparr>messageInput = ''  '' @ [newline], modelSelect = ''llama3'', currentChatId = None,
      lastUserMessage = ''hello'', chatMessages = [UserMessage ''hello'', AssistantMessage 0],
      calls = [fresh_exchange], requests = [ChatMessage ''hello'' ''llama3'' (Some 1)]\<rparr>
   \<and> trim (messageInput
     \<lparr>messageInput = [], modelSelect = ''llama3'', currentChatId = None,
      lastUserMessage = [], chatMessages = [],
      calls = [] :: token_exchange list, requests = []\<rparr>) = []
   \<and> sendMessage_main (Some 2)
     \<lparr>messageInput = [], modelSelect = ''llama3'', currentChatId = None,
      lastUserMessage = [], chatMessages = [], calls = [], requests = []\<rparr>
     = \<lparr>messageInput = [], modelSelect = ''llama3'', currentChatId = None,
      lastUserMessage = [], chatMessages = [], calls = [], requests = []\<rparr>"
proof -
  let ?pg = "\<lparr>messageInput = ''  '' @ [newline], modelSelect = ''llama3'', currentChatId = None,
      lastUserMessage = ''hello'', chatMessages = [UserMessage ''hello'', AssistantMessage 0],
      calls = [fresh_exchange], requests = [ChatMessage ''hello'' ''llama3'' (Some 1)]\<rparr>"
  let ?pm = "\<lparr>messageInput = [], modelSelect = ''llama3'', currentChatId = None,
      lastUserMessage = [], chatMessages = [],
      calls = [] :: token_exchange list, requests = []\<rparr>"
  have a: "trim (messageInput ?pg) = []"
    by (simp add: trim_def is_space_def newline_def)
  have b: "trim (messageInput ?pm) = []"
    by (simp add: trim_def)
  show ?thesis
    using a b empty_input_is_no_op [OF a b, of "Some 2" "Some 2"] by simp
qed

end
